theory Spec2Isabelle
  imports Main
begin

section \<open>The command registry of the data science extension\<close>

text \<open>
  A shallow embedding of \<^verbatim>\<open>src/client/datascience/commands/commandRegistry.ts\<close>.
  The class \<^verbatim>\<open>CommandRegistry\<close> binds command identifiers to handler methods and
  forwards each handler to an injected collaborator. The collaborators are host objects
  whose code is not part of the file, so the embedding keeps them opaque:
  \<^item> what a handler \<^emph>\<open>reads\<close> from a collaborator (open documents, the active editor,
    the code watcher of a document, the active debug session, the current settings,
    what the user answers to a prompt) is a field of the record \<open>env\<close>;
  \<^item> what a handler \<^emph>\<open>asks a collaborator to do\<close> is a value of the datatype \<open>call\<close>,
    and a handler returns the list of the calls it made, in order;
  \<^item> a thrown error (a rejected promise, for an \<^verbatim>\<open>async\<close> method) is \<open>Inl\<close> of an
    \<open>error\<close>; every throw of the file happens before the handler's first call.
\<close>

subsection \<open>Host data\<close>

text \<open>\<^verbatim>\<open>Uri.parse(s)\<close> is kept symbolic: the host's parser is not modelled.\<close>

datatype uri = Uri_parse string

record position =
  line :: int
  character :: int

record range =
  start :: position
  end_pos :: position

text \<open>
  The host's constructors, which are not code of the file. \<^verbatim>\<open>new Position(l, c)\<close>
  throws an illegal argument error when the line or the character is negative.
  \<^verbatim>\<open>new Range(startLine, startChar, endLine, endChar)\<close> builds the start position, then
  the end position, and keeps them in this order when the start is before the end, and in
  the other order otherwise, so that the start of a range is never after its end.
\<close>

datatype host_error = IllegalArgument

definition Position :: "int \<Rightarrow> int \<Rightarrow> host_error + position" where
  "Position l c =
     (if l < 0 then Inl IllegalArgument
      else if c < 0 then Inl IllegalArgument
      else Inr \<lparr>line = l, character = c\<rparr>)"

definition isBefore :: "position \<Rightarrow> position \<Rightarrow> bool" where
  "isBefore p q =
     (if line p < line q then True
      else if line q < line p then False
      else character p < character q)"

definition Range :: "int \<Rightarrow> int \<Rightarrow> int \<Rightarrow> int \<Rightarrow> host_error + range" where
  "Range startLine startChar endLine endChar =
     (case Position startLine startChar of
        Inl err \<Rightarrow> Inl err
      | Inr s \<Rightarrow>
          (case Position endLine endChar of
             Inl err \<Rightarrow> Inl err
           | Inr t \<Rightarrow>
               if isBefore s t then Inr \<lparr>start = s, end_pos = t\<rparr>
               else Inr \<lparr>start = t, end_pos = s\<rparr>))"

record selection =
  anchor :: position
  sel_start :: position

record codeLens =
  lens_range :: range

record textDocument =
  fileName :: string
  doc_uri :: string

text \<open>
  The file tests \<^verbatim>\<open>activeEditor.document\<close> and \<^verbatim>\<open>textEditor.selection\<close> for
  truthiness, so both may be absent.
\<close>

record textEditor =
  document :: "textDocument option"
  selection :: "selection option"

record notebookEditor =
  nb_file :: uri
  isUntitled :: bool
  isDirty :: bool

text \<open>A code watcher is a host object; it is known by its identity.\<close>

type_synonym codeWatcher = nat
type_synonym debugSession = nat
type_synonym commandListener = nat

text \<open>The localized strings of \<^verbatim>\<open>DataScience\<close> (\<^verbatim>\<open>common/utils/localize\<close>), by name.\<close>

datatype localized =
    loadThirdPartyWidgetScriptsPostEnabled
  | exportSaveFileYes
  | exportSaveFileCancel
  | exportSaveFilePrompt

datatype configurationTarget = Global | Workspace | WorkspaceFolder

datatype telemetry =
    Telemetry_DebugStepOver
  | Telemetry_DebugStop
  | Telemetry_DebugContinue
  | Telemetry_AddCellBelow
  | Telemetry_GatherQualityReport

subsection \<open>Errors\<close>

text \<open>
  \<open>DocumentMismatch file\<close> is \<^verbatim>\<open>new Error(DataScience.documentMismatch().format(file))\<close>;
  \<open>TypeError\<close> is the property read of \<^verbatim>\<open>undefined\<close> in \<^verbatim>\<open>getCurrentCodeLens\<close>;
  \<open>HostError\<close> is an error thrown by a constructor of the host.
\<close>

datatype error = DocumentMismatch string | TypeError | HostError host_error

subsection \<open>Calls to collaborators\<close>

datatype cw_method =
    CW_runAllCells
  | CW_runFileInteractive
  | CW_debugFileInteractive
  | CW_runCell range
  | CW_runAllCellsAbove int int
  | CW_runCellAndAllBelow int int
  | CW_runToLine int
  | CW_runFromLine int
  | CW_runCurrentCell
  | CW_runCurrentCellAndAdvance
  | CW_runSelectionOrLine "textEditor option"
  | CW_debugCell range
  | CW_addEmptyCellToBottom
  | CW_runCurrentCellAndAddBelow
  | CW_debugCurrentCell

record quickPickOptions =
  ignoreFocusOut :: bool
  matchOnDescription :: bool
  matchOnDetail :: bool
  placeHolder :: string

record saveDialogOptions =
  defaultUri :: "uri option"
  saveLabel :: string
  filters :: "(string \<times> string list) list"

text \<open>What the host sees of a quick pick item: its label and whether it is picked.\<close>

record quickPickItem =
  label :: string
  picked :: bool

datatype "call" =
    CodeWatcherCall codeWatcher cw_method
  | ExecuteCommand string
  | NotebookCreateNew
  | StartPageOpen
  | JupyterOutputShow bool
  | SendTelemetryEvent telemetry "(string \<times> string) list"
  | OpenExternal uri
  | UpdateSetting string "string list" configurationTarget
  | ShowInformationMessage localized "localized list"
  | ShowQuickPick "quickPickItem list" quickPickOptions
  | ShowSaveDialog saveDialogOptions

type_synonym result = "error + call list"

subsection \<open>The environment a handler runs in\<close>

record env =
  textDocuments :: "textDocument list"
  activeTextEditor :: "textEditor option"
  lensGetCodeWatcher :: "textDocument \<Rightarrow> codeWatcher option"
  getCodeLenses :: "codeWatcher \<Rightarrow> codeLens list"
  activeDebugSession :: "debugSession option"
  widgetScriptSources :: "string list"
  updateSettingResolves :: bool
  notebookActiveEditor :: "notebookEditor option"
  quickPickAnswer :: "quickPickItem option"
  informationMessageAnswer :: "localized option"
  saveDialogAnswer :: "uri option"

subsection \<open>Looking up code watchers\<close>

text \<open>
  \<^verbatim>\<open>getCodeWatcher(file)\<close>: the open documents named \<open>file\<close>; exactly one gives the
  provider's code watcher for it, more than one throws, none gives \<^verbatim>\<open>undefined\<close>.
  (An array is always truthy, so \<^verbatim>\<open>possibleDocuments &&\<close> never decides.)
\<close>

definition getCodeWatcher :: "env \<Rightarrow> string \<Rightarrow> error + codeWatcher option" where
  "getCodeWatcher e f =
     (let possibleDocuments = filter (\<lambda>d. fileName d = f) (textDocuments e) in
      if length possibleDocuments = 1 then
        (case possibleDocuments of d # _ \<Rightarrow> Inr (lensGetCodeWatcher e d) | [] \<Rightarrow> Inr None)
      else if length possibleDocuments > 1 then Inl (DocumentMismatch f)
      else Inr None)"

text \<open>\<^verbatim>\<open>getCurrentCodeWatcher()\<close>: the code watcher of the active editor's document.\<close>

definition getCurrentCodeWatcher :: "env \<Rightarrow> codeWatcher option" where
  "getCurrentCodeWatcher e =
     (case activeTextEditor e of
        None \<Rightarrow> None
      | Some activeEditor \<Rightarrow>
          (case document activeEditor of
             None \<Rightarrow> None
           | Some d \<Rightarrow> lensGetCodeWatcher e d))"

text \<open>
  The callback of \<^verbatim>\<open>find\<close> in \<^verbatim>\<open>getCurrentCodeLens\<close>: it reads
  \<^verbatim>\<open>activeEditor.selection.anchor.line\<close> for each code lens it visits, which throws when
  the editor has no selection; the first code lens whose lines enclose the anchor wins.
\<close>

fun findCodeLens :: "selection option \<Rightarrow> codeLens list \<Rightarrow> error + codeLens option" where
  "findCodeLens sel [] = Inr None"
| "findCodeLens sel (c # cs) =
     (case sel of
        None \<Rightarrow> Inl TypeError
      | Some s \<Rightarrow>
          if line (end_pos (lens_range c)) \<ge> line (anchor s) \<and>
             line (start (lens_range c)) \<le> line (anchor s)
          then Inr (Some c)
          else findCodeLens sel cs)"

definition getCurrentCodeLens :: "env \<Rightarrow> error + codeLens option" where
  "getCurrentCodeLens e =
     (case activeTextEditor e of
        None \<Rightarrow> Inr None
      | Some activeEditor \<Rightarrow>
          (case getCurrentCodeWatcher e of
             None \<Rightarrow> Inr None
           | Some activeCodeWatcher \<Rightarrow>
               findCodeLens (selection activeEditor) (getCodeLenses e activeCodeWatcher)))"

subsection \<open>Handlers that run or debug code\<close>

definition runAllCells :: "env \<Rightarrow> string \<Rightarrow> result" where
  "runAllCells e f =
     (case getCodeWatcher e f of
        Inl err \<Rightarrow> Inl err
      | Inr found \<Rightarrow>
          (let codeWatcher = (case found of None \<Rightarrow> getCurrentCodeWatcher e | Some w \<Rightarrow> Some w) in
           case codeWatcher of
             Some w \<Rightarrow> Inr [CodeWatcherCall w CW_runAllCells]
           | None \<Rightarrow> Inr []))"

definition runFileInteractive :: "env \<Rightarrow> string \<Rightarrow> result" where
  "runFileInteractive e f =
     (case getCodeWatcher e f of
        Inl err \<Rightarrow> Inl err
      | Inr found \<Rightarrow>
          (let codeWatcher = (case found of None \<Rightarrow> getCurrentCodeWatcher e | Some w \<Rightarrow> Some w) in
           case codeWatcher of
             Some w \<Rightarrow> Inr [CodeWatcherCall w CW_runFileInteractive]
           | None \<Rightarrow> Inr []))"

definition debugFileInteractive :: "env \<Rightarrow> string \<Rightarrow> result" where
  "debugFileInteractive e f =
     (case getCodeWatcher e f of
        Inl err \<Rightarrow> Inl err
      | Inr found \<Rightarrow>
          (let codeWatcher = (case found of None \<Rightarrow> getCurrentCodeWatcher e | Some w \<Rightarrow> Some w) in
           case codeWatcher of
             Some w \<Rightarrow> Inr [CodeWatcherCall w CW_debugFileInteractive]
           | None \<Rightarrow> Inr []))"

definition runCell :: "env \<Rightarrow> string \<Rightarrow> int \<Rightarrow> int \<Rightarrow> int \<Rightarrow> int \<Rightarrow> result" where
  "runCell e f startLine startChar endLine endChar =
     (case getCodeWatcher e f of
        Inl err \<Rightarrow> Inl err
      | Inr (Some w) \<Rightarrow>
          (case Range startLine startChar endLine endChar of
             Inl err \<Rightarrow> Inl (HostError err)
           | Inr cell \<Rightarrow> Inr [CodeWatcherCall w (CW_runCell cell)])
      | Inr None \<Rightarrow> Inr [])"

text \<open>\<^verbatim>\<open>if (file)\<close>: the empty string is falsy.\<close>

definition runAllCellsAbove :: "env \<Rightarrow> string \<Rightarrow> int \<Rightarrow> int \<Rightarrow> result" where
  "runAllCellsAbove e f stopLine stopCharacter =
     (if f \<noteq> [] then
        (case getCodeWatcher e f of
           Inl err \<Rightarrow> Inl err
         | Inr (Some w) \<Rightarrow> Inr [CodeWatcherCall w (CW_runAllCellsAbove stopLine stopCharacter)]
         | Inr None \<Rightarrow> Inr [])
      else Inr [])"

definition runCellAndAllBelow :: "env \<Rightarrow> string \<Rightarrow> int \<Rightarrow> int \<Rightarrow> result" where
  "runCellAndAllBelow e f startLine startCharacter =
     (if f \<noteq> [] then
        (case getCodeWatcher e f of
           Inl err \<Rightarrow> Inl err
         | Inr (Some w) \<Rightarrow> Inr [CodeWatcherCall w (CW_runCellAndAllBelow startLine startCharacter)]
         | Inr None \<Rightarrow> Inr [])
      else Inr [])"

definition runToLine :: "env \<Rightarrow> result" where
  "runToLine e =
     (case (getCurrentCodeWatcher e, activeTextEditor e) of
        (Some activeCodeWatcher, Some textEditor) \<Rightarrow>
          (case selection textEditor of
             Some s \<Rightarrow> Inr [CodeWatcherCall activeCodeWatcher (CW_runToLine (line (sel_start s)))]
           | None \<Rightarrow> Inr [])
      | _ \<Rightarrow> Inr [])"

definition runFromLine :: "env \<Rightarrow> result" where
  "runFromLine e =
     (case (getCurrentCodeWatcher e, activeTextEditor e) of
        (Some activeCodeWatcher, Some textEditor) \<Rightarrow>
          (case selection textEditor of
             Some s \<Rightarrow> Inr [CodeWatcherCall activeCodeWatcher (CW_runFromLine (line (sel_start s)))]
           | None \<Rightarrow> Inr [])
      | _ \<Rightarrow> Inr [])"

definition runCurrentCell :: "env \<Rightarrow> result" where
  "runCurrentCell e =
     (case getCurrentCodeWatcher e of
        Some activeCodeWatcher \<Rightarrow> Inr [CodeWatcherCall activeCodeWatcher CW_runCurrentCell]
      | None \<Rightarrow> Inr [])"

definition runCurrentCellAndAdvance :: "env \<Rightarrow> result" where
  "runCurrentCellAndAdvance e =
     (case getCurrentCodeWatcher e of
        Some activeCodeWatcher \<Rightarrow> Inr [CodeWatcherCall activeCodeWatcher CW_runCurrentCellAndAdvance]
      | None \<Rightarrow> Inr [])"

definition runSelectionOrLine :: "env \<Rightarrow> result" where
  "runSelectionOrLine e =
     (case getCurrentCodeWatcher e of
        Some activeCodeWatcher \<Rightarrow>
          Inr [CodeWatcherCall activeCodeWatcher (CW_runSelectionOrLine (activeTextEditor e))]
      | None \<Rightarrow> Inr [])"

definition debugCell :: "env \<Rightarrow> string \<Rightarrow> int \<Rightarrow> int \<Rightarrow> int \<Rightarrow> int \<Rightarrow> result" where
  "debugCell e f startLine startChar endLine endChar =
     (if f \<noteq> [] then
        (case getCodeWatcher e f of
           Inl err \<Rightarrow> Inl err
         | Inr (Some w) \<Rightarrow>
             (case Range startLine startChar endLine endChar of
                Inl err \<Rightarrow> Inl (HostError err)
              | Inr cell \<Rightarrow> Inr [CodeWatcherCall w (CW_debugCell cell)])
         | Inr None \<Rightarrow> Inr [])
      else Inr [])"

subsection \<open>Handlers of the debugger\<close>

text \<open>
  The bodies of the three methods. Each is declared under \<^verbatim>\<open>@captureTelemetry\<close>, as is
  \<open>addCellBelow\<close> below; the decorator is applied where the handlers are bound, in \<open>invoke\<close>.
\<close>

definition debugStepOver :: "env \<Rightarrow> result" where
  "debugStepOver e =
     (if activeDebugSession e \<noteq> None
      then Inr [ExecuteCommand ''workbench.action.debug.stepOver'']
      else Inr [])"

definition debugStop :: "env \<Rightarrow> result" where
  "debugStop e =
     (if activeDebugSession e \<noteq> None
      then Inr [ExecuteCommand ''workbench.action.debug.stop'']
      else Inr [])"

definition debugContinue :: "env \<Rightarrow> result" where
  "debugContinue e =
     (if activeDebugSession e \<noteq> None
      then Inr [ExecuteCommand ''workbench.action.debug.continue'']
      else Inr [])"

subsection \<open>Handlers on the active editor's cells\<close>

definition addCellBelow :: "env \<Rightarrow> result" where
  "addCellBelow e =
     (case (activeTextEditor e, getCurrentCodeWatcher e) of
        (Some activeEditor, Some activeCodeWatcher) \<Rightarrow>
          Inr [CodeWatcherCall activeCodeWatcher CW_addEmptyCellToBottom]
      | _ \<Rightarrow> Inr [])"

definition runCurrentCellAndAddBelow :: "env \<Rightarrow> result" where
  "runCurrentCellAndAddBelow e =
     (case getCurrentCodeWatcher e of
        Some activeCodeWatcher \<Rightarrow> Inr [CodeWatcherCall activeCodeWatcher CW_runCurrentCellAndAddBelow]
      | None \<Rightarrow> Inr [])"

definition runAllCellsAboveFromCursor :: "env \<Rightarrow> result" where
  "runAllCellsAboveFromCursor e =
     (case getCurrentCodeLens e of
        Inl err \<Rightarrow> Inl err
      | Inr (Some currentCodeLens) \<Rightarrow>
          (case getCurrentCodeWatcher e of
             Some activeCodeWatcher \<Rightarrow>
               Inr [CodeWatcherCall activeCodeWatcher
                      (CW_runAllCellsAbove (line (start (lens_range currentCodeLens)))
                                           (character (start (lens_range currentCodeLens))))]
           | None \<Rightarrow> Inr [])
      | Inr None \<Rightarrow> Inr [])"

definition runCellAndAllBelowFromCursor :: "env \<Rightarrow> result" where
  "runCellAndAllBelowFromCursor e =
     (case getCurrentCodeLens e of
        Inl err \<Rightarrow> Inl err
      | Inr (Some currentCodeLens) \<Rightarrow>
          (case getCurrentCodeWatcher e of
             Some activeCodeWatcher \<Rightarrow>
               Inr [CodeWatcherCall activeCodeWatcher
                      (CW_runCellAndAllBelow (line (start (lens_range currentCodeLens)))
                                             (character (start (lens_range currentCodeLens))))]
           | None \<Rightarrow> Inr [])
      | Inr None \<Rightarrow> Inr [])"

definition debugCurrentCellFromCursor :: "env \<Rightarrow> result" where
  "debugCurrentCellFromCursor e =
     (case getCurrentCodeLens e of
        Inl err \<Rightarrow> Inl err
      | Inr (Some currentCodeLens) \<Rightarrow>
          (case getCurrentCodeWatcher e of
             Some activeCodeWatcher \<Rightarrow> Inr [CodeWatcherCall activeCodeWatcher CW_debugCurrentCell]
           | None \<Rightarrow> Inr [])
      | Inr None \<Rightarrow> Inr [])"

subsection \<open>Notebook, start page and output channel\<close>

definition createNewNotebook :: "env \<Rightarrow> result" where
  "createNewNotebook e = Inr [NotebookCreateNew]"

definition openStartPage :: "env \<Rightarrow> result" where
  "openStartPage e = Inr [StartPageOpen]"

definition viewJupyterOutput :: "env \<Rightarrow> call list" where
  "viewJupyterOutput e = [JupyterOutputShow True]"

subsection \<open>Export\<close>

text \<open>An export quick pick item is a quick pick item with a handler.\<close>

record exportQuickPickItem = quickPickItem +
  handler :: "env \<Rightarrow> call list"

definition exportAsPythonScript :: "env \<Rightarrow> call list" where
  "exportAsPythonScript e = []"

definition exportToHTML :: "env \<Rightarrow> call list" where
  "exportToHTML e = []"

definition exportToPDF :: "env \<Rightarrow> call list" where
  "exportToPDF e = []"

definition getExportQuickPickItems :: "exportQuickPickItem list" where
  "getExportQuickPickItems =
     [\<lparr>label = ''Python Script'', picked = True, handler = exportAsPythonScript\<rparr>,
      \<lparr>label = ''HTML'', picked = False, handler = exportToHTML\<rparr>,
      \<lparr>label = ''PDF'', picked = False, handler = exportToPDF\<rparr>]"

text \<open>
  \<^verbatim>\<open>showExportQuickPick()\<close> shows the items and resolves to the first item that has the
  label of the item the user picked, or to \<^verbatim>\<open>undefined\<close>. The calls it made come first.
\<close>

definition showExportQuickPick :: "env \<Rightarrow> call list \<times> exportQuickPickItem option" where
  "showExportQuickPick e =
     (let items = getExportQuickPickItems;
          options = \<lparr>ignoreFocusOut = True, matchOnDescription = True, matchOnDetail = True,
                     placeHolder = ''Export As...''\<rparr>
      in ([ShowQuickPick (map quickPickItem.truncate items) options],
          case quickPickAnswer e of
            None \<Rightarrow> None
          | Some pickedItem \<Rightarrow> find (\<lambda>item. label item = label pickedItem) items))"

text \<open>
  \<^verbatim>\<open>getFileSaveLocation()\<close> shows the save dialog and returns \<^verbatim>\<open>undefined\<close>; the
  callback given to \<^verbatim>\<open>then\<close> returns the chosen uri to nobody.
\<close>

definition getFileSaveLocation :: "env \<Rightarrow> uri option \<times> call list" where
  "getFileSaveLocation e =
     (let f = map_option nb_file (notebookActiveEditor e);
          options = \<lparr>defaultUri = f, saveLabel = [],
                     filters = [(''Juypter Notebooks'', [''ipynb''])]\<rparr>
      in (None, [ShowSaveDialog options]))"

text \<open>
  \<^verbatim>\<open>verifySaved()\<close> asks whether to save a dirty, titled notebook. The first component
  is what it calls before returning, the second what the callback of its prompt calls once
  the user has answered.
\<close>

definition verifySaved :: "env \<Rightarrow> call list \<times> call list" where
  "verifySaved e =
     (if (case notebookActiveEditor e of Some ed \<Rightarrow> isUntitled ed | None \<Rightarrow> False) then ([], [])
      else if \<not> (case notebookActiveEditor e of Some ed \<Rightarrow> isDirty ed | None \<Rightarrow> False) then ([], [])
      else
        (let yes = exportSaveFileYes; cancel = exportSaveFileCancel; options = [yes, cancel] in
         ([ShowInformationMessage exportSaveFilePrompt options],
          if informationMessageAnswer e = Some yes then snd (getFileSaveLocation e) else [])))"

text \<open>
  \<^verbatim>\<open>export()\<close>: the quick pick, then \<^verbatim>\<open>verifySaved()\<close>, then the handler of the chosen
  item; the save dialog of \<^verbatim>\<open>verifySaved\<close> comes after the handler has returned.
\<close>

definition export :: "env \<Rightarrow> call list" where
  "export e =
     (let (shown, item) = showExportQuickPick e;
          (asked, later) = verifySaved e
      in shown @ asked @ (case item of Some i \<Rightarrow> handler i e | None \<Rightarrow> []) @ later)"

subsection \<open>Gather survey and widget script sources\<close>

definition reportGatherQuality :: "env \<Rightarrow> string \<Rightarrow> call list" where
  "reportGatherQuality e val =
     [SendTelemetryEvent Telemetry_GatherQualityReport
        [(''result'', if val = ''no'' then ''no'' else ''yes'')],
      OpenExternal (Uri_parse (''https://aka.ms/gathersurvey?succeed='' @ val))]"

text \<open>
  \<^verbatim>\<open>enableLoadingWidgetScriptsFromThirdParty()\<close>: nothing when some script source is
  configured; otherwise one update of the setting and, once the update has resolved, a
  message. A rejected update is swallowed by \<^verbatim>\<open>catch(noop)\<close>.
\<close>

definition enableLoadingWidgetScriptsFromThirdParty :: "env \<Rightarrow> call list" where
  "enableLoadingWidgetScriptsFromThirdParty e =
     (if length (widgetScriptSources e) > 0 then []
      else
        UpdateSetting ''dataScience.widgetScriptSources'' [''jsdelivr.com'', ''unpkg.com''] Global #
        (if updateSettingResolves e
         then [ShowInformationMessage loadThirdPartyWidgetScriptsPostEnabled []]
         else []))"

text \<open>
  The code of \<^verbatim>\<open>IConfigurationService.updateSetting\<close> is not in the file, so what an
  update does to the configuration is the parameter \<open>upd\<close>: an update that resolves applies
  it once, a rejected update and every other call leave the configuration as it is.
\<close>

fun applyCall ::
  "(string \<Rightarrow> string list \<Rightarrow> configurationTarget \<Rightarrow> 'st \<Rightarrow> 'st) \<Rightarrow> env \<Rightarrow> 'st \<Rightarrow> call \<Rightarrow> 'st" where
  "applyCall upd e st (UpdateSetting name v target) =
     (if updateSettingResolves e then upd name v target st else st)"
| "applyCall upd e st _ = st"

definition settingsAfter ::
  "(string \<Rightarrow> string list \<Rightarrow> configurationTarget \<Rightarrow> 'st \<Rightarrow> 'st) \<Rightarrow> env \<Rightarrow> 'st \<Rightarrow> call list \<Rightarrow> 'st" where
  "settingsAfter upd e st cs = foldl (applyCall upd e) st cs"

text \<open>
  Modelled from the spec: the configuration service as a store with one value per target
  and setting name, where an update writes the value under its target and name.
\<close>

type_synonym settingsStore = "configurationTarget \<times> string \<Rightarrow> string list option"

definition storeSetting ::
  "string \<Rightarrow> string list \<Rightarrow> configurationTarget \<Rightarrow> settingsStore \<Rightarrow> settingsStore" where
  "storeSetting name v target st = st((target, name) \<mapsto> v)"

subsection \<open>Commands and their handlers\<close>

text \<open>
  The identifiers \<^verbatim>\<open>Commands.*\<close> of \<^verbatim>\<open>datascience/constants\<close> that the file
  registers, and \<^verbatim>\<open>coreCommands.OpenStartPage\<close> of \<^verbatim>\<open>common/constants\<close>.
\<close>

datatype command =
    RunAllCells
  | RunCell
  | RunCurrentCell
  | RunCurrentCellAdvance
  | ExecSelectionInInteractiveWindow
  | RunAllCellsAbove
  | RunCellAndAllBelow
  | RunAllCellsAbovePalette
  | RunCellAndAllBelowPalette
  | RunToLine
  | RunFromLine
  | RunFileInInteractiveWindows
  | DebugFileInInteractiveWindows
  | AddCellBelow
  | RunCurrentCellAndAddBelow
  | DebugCell
  | DebugStepOver
  | DebugContinue
  | DebugStop
  | DebugCurrentCellPalette
  | CreateNewNotebook
  | ViewJupyterOutput
  | ExportAsPythonScript
  | ExportToHTML
  | ExportToPDF
  | Export
  | GatherQuality
  | EnableLoadingWidgetsFrom3rdPartySource
  | OpenStartPage

text \<open>The handler methods of the class, by name.\<close>

datatype handler_name =
    H_runAllCells
  | H_runCell
  | H_runCurrentCell
  | H_runCurrentCellAndAdvance
  | H_runSelectionOrLine
  | H_runAllCellsAbove
  | H_runCellAndAllBelow
  | H_runAllCellsAboveFromCursor
  | H_runCellAndAllBelowFromCursor
  | H_runToLine
  | H_runFromLine
  | H_runFileInteractive
  | H_debugFileInteractive
  | H_addCellBelow
  | H_runCurrentCellAndAddBelow
  | H_debugCell
  | H_debugStepOver
  | H_debugContinue
  | H_debugStop
  | H_debugCurrentCellFromCursor
  | H_createNewNotebook
  | H_viewJupyterOutput
  | H_exportAsPythonScript
  | H_exportToHTML
  | H_exportToPDF
  | H_export
  | H_reportGatherQuality
  | H_enableLoadingWidgetScriptsFromThirdParty
  | H_openStartPage

text \<open>The arguments a handler takes, as its signature types them.\<close>

datatype arguments =
    NoArguments
  | FileArgument string
  | FileLineArguments string int int
  | FileRangeArguments string int int int int
  | ValArgument string

text \<open>
  Modelled from the spec: the decorator \<^verbatim>\<open>@captureTelemetry(event)\<close> of the telemetry
  module, whose code is not in the file. The method that \<open>register\<close> binds is the decorated
  one: it runs the body and then emits the telemetry event of the decorator, once, without
  properties. (A body that throws is passed on as it is; none of the four decorated bodies
  throws.)
\<close>

definition captureTelemetry :: "telemetry \<Rightarrow> result \<Rightarrow> result" where
  "captureTelemetry event body =
     (case body of
        Inl err \<Rightarrow> Inl err
      | Inr cs \<Rightarrow> Inr (cs @ [SendTelemetryEvent event []]))"

text \<open>
  Calling a handler as \<open>register\<close> binds it, that is with its decorator when it has one:
  \<open>None\<close> when the arguments are not of the handler's signature. The methods that return
  nothing cannot throw; their calls are wrapped in \<open>Inr\<close>.
\<close>

definition invoke :: "env \<Rightarrow> handler_name \<Rightarrow> arguments \<Rightarrow> result option" where
  "invoke e h a =
     (case h of
        H_runAllCells \<Rightarrow> (case a of FileArgument f \<Rightarrow> Some (runAllCells e f) | _ \<Rightarrow> None)
      | H_runFileInteractive \<Rightarrow>
          (case a of FileArgument f \<Rightarrow> Some (runFileInteractive e f) | _ \<Rightarrow> None)
      | H_debugFileInteractive \<Rightarrow>
          (case a of FileArgument f \<Rightarrow> Some (debugFileInteractive e f) | _ \<Rightarrow> None)
      | H_runCell \<Rightarrow>
          (case a of FileRangeArguments f sl sc el ec \<Rightarrow> Some (runCell e f sl sc el ec) | _ \<Rightarrow> None)
      | H_debugCell \<Rightarrow>
          (case a of FileRangeArguments f sl sc el ec \<Rightarrow> Some (debugCell e f sl sc el ec) | _ \<Rightarrow> None)
      | H_runAllCellsAbove \<Rightarrow>
          (case a of FileLineArguments f l c \<Rightarrow> Some (runAllCellsAbove e f l c) | _ \<Rightarrow> None)
      | H_runCellAndAllBelow \<Rightarrow>
          (case a of FileLineArguments f l c \<Rightarrow> Some (runCellAndAllBelow e f l c) | _ \<Rightarrow> None)
      | H_reportGatherQuality \<Rightarrow>
          (case a of ValArgument v \<Rightarrow> Some (Inr (reportGatherQuality e v)) | _ \<Rightarrow> None)
      | _ \<Rightarrow>
          (case a of
             NoArguments \<Rightarrow>
               (case h of
                  H_runCurrentCell \<Rightarrow> Some (runCurrentCell e)
                | H_runCurrentCellAndAdvance \<Rightarrow> Some (runCurrentCellAndAdvance e)
                | H_runSelectionOrLine \<Rightarrow> Some (runSelectionOrLine e)
                | H_runAllCellsAboveFromCursor \<Rightarrow> Some (runAllCellsAboveFromCursor e)
                | H_runCellAndAllBelowFromCursor \<Rightarrow> Some (runCellAndAllBelowFromCursor e)
                | H_runToLine \<Rightarrow> Some (runToLine e)
                | H_runFromLine \<Rightarrow> Some (runFromLine e)
                | H_addCellBelow \<Rightarrow>
                    Some (captureTelemetry Telemetry_AddCellBelow (addCellBelow e))
                | H_runCurrentCellAndAddBelow \<Rightarrow> Some (runCurrentCellAndAddBelow e)
                | H_debugStepOver \<Rightarrow>
                    Some (captureTelemetry Telemetry_DebugStepOver (debugStepOver e))
                | H_debugContinue \<Rightarrow>
                    Some (captureTelemetry Telemetry_DebugContinue (debugContinue e))
                | H_debugStop \<Rightarrow>
                    Some (captureTelemetry Telemetry_DebugStop (debugStop e))
                | H_debugCurrentCellFromCursor \<Rightarrow> Some (debugCurrentCellFromCursor e)
                | H_createNewNotebook \<Rightarrow> Some (createNewNotebook e)
                | H_openStartPage \<Rightarrow> Some (openStartPage e)
                | H_viewJupyterOutput \<Rightarrow> Some (Inr (viewJupyterOutput e))
                | H_exportAsPythonScript \<Rightarrow> Some (Inr (exportAsPythonScript e))
                | H_exportToHTML \<Rightarrow> Some (Inr (exportToHTML e))
                | H_exportToPDF \<Rightarrow> Some (Inr (exportToPDF e))
                | H_export \<Rightarrow> Some (Inr (export e))
                | H_enableLoadingWidgetScriptsFromThirdParty \<Rightarrow>
                    Some (Inr (enableLoadingWidgetScriptsFromThirdParty e))
                | _ \<Rightarrow> None)
           | _ \<Rightarrow> None))"


subsection \<open>The registry: construction, registration, disposal\<close>

text \<open>
  A disposable is one of the two selector commands the constructor keeps, or what
  \<^verbatim>\<open>commandManager.registerCommand\<close> returned: the command manager hands out a new
  disposable for each registration, numbered here in the order of the registrations.
\<close>

datatype disposable =
    ServerSelectedCommand
  | KernelSwitcherCommand
  | CommandDisposable nat

datatype registry_call =
    CommandLineCommand_register
  | ServerSelectedCommand_register
  | KernelSwitcherCommand_register
  | CommandManager_registerCommand command handler_name
  | Listener_register commandListener
  | Disposable_dispose disposable

text \<open>
  The object: its array of disposables, the optional command listeners it was given, the
  registrations it has made with the command manager, and the calls it has made so far.
\<close>

record registry =
  disposables :: "disposable list"
  commandListeners :: "commandListener list option"
  registered :: "(command \<times> handler_name) list"
  made :: "registry_call list"

definition constructor :: "commandListener list option \<Rightarrow> registry" where
  "constructor listeners =
     \<lparr>disposables = [] @ [ServerSelectedCommand] @ [KernelSwitcherCommand],
      commandListeners = listeners,
      registered = [],
      made = []\<rparr>"

definition registerCommand :: "command \<Rightarrow> handler_name \<Rightarrow> registry \<Rightarrow> registry" where
  "registerCommand c callback r =
     (let disposable = CommandDisposable (length (registered r)) in
      r\<lparr>registered := registered r @ [(c, callback)],
        made := made r @ [CommandManager_registerCommand c callback],
        disposables := disposables r @ [disposable]\<rparr>)"

definition perform :: "registry_call \<Rightarrow> registry \<Rightarrow> registry" where
  "perform c r = r\<lparr>made := made r @ [c]\<rparr>"

definition register :: "registry \<Rightarrow> registry" where
  "register r0 =
     (let r = perform CommandLineCommand_register r0;
          r = perform ServerSelectedCommand_register r;
          r = perform KernelSwitcherCommand_register r;
          r = registerCommand RunAllCells H_runAllCells r;
          r = registerCommand RunCell H_runCell r;
          r = registerCommand RunCurrentCell H_runCurrentCell r;
          r = registerCommand RunCurrentCellAdvance H_runCurrentCellAndAdvance r;
          r = registerCommand ExecSelectionInInteractiveWindow H_runSelectionOrLine r;
          r = registerCommand RunAllCellsAbove H_runAllCellsAbove r;
          r = registerCommand RunCellAndAllBelow H_runCellAndAllBelow r;
          r = registerCommand RunAllCellsAbovePalette H_runAllCellsAboveFromCursor r;
          r = registerCommand RunCellAndAllBelowPalette H_runCellAndAllBelowFromCursor r;
          r = registerCommand RunToLine H_runToLine r;
          r = registerCommand RunFromLine H_runFromLine r;
          r = registerCommand RunFileInInteractiveWindows H_runFileInteractive r;
          r = registerCommand DebugFileInInteractiveWindows H_debugFileInteractive r;
          r = registerCommand AddCellBelow H_addCellBelow r;
          r = registerCommand RunCurrentCellAndAddBelow H_runCurrentCellAndAddBelow r;
          r = registerCommand DebugCell H_debugCell r;
          r = registerCommand DebugStepOver H_debugStepOver r;
          r = registerCommand DebugContinue H_debugContinue r;
          r = registerCommand DebugStop H_debugStop r;
          r = registerCommand DebugCurrentCellPalette H_debugCurrentCellFromCursor r;
          r = registerCommand CreateNewNotebook H_createNewNotebook r;
          r = registerCommand ViewJupyterOutput H_viewJupyterOutput r;
          r = registerCommand ExportAsPythonScript H_exportAsPythonScript r;
          r = registerCommand ExportToHTML H_exportToHTML r;
          r = registerCommand ExportToPDF H_exportToPDF r;
          r = registerCommand Export H_export r;
          r = registerCommand GatherQuality H_reportGatherQuality r;
          r = registerCommand EnableLoadingWidgetsFrom3rdPartySource
                H_enableLoadingWidgetScriptsFromThirdParty r;
          r = registerCommand OpenStartPage H_openStartPage r
      in case commandListeners r of
           Some listeners \<Rightarrow> foldl (\<lambda>r listener. perform (Listener_register listener) r) r listeners
         | None \<Rightarrow> r)"

text \<open>\<^verbatim>\<open>dispose()\<close>: the calls of \<^verbatim>\<open>forEach\<close>, one per element, in the array's order.\<close>

definition dispose :: "registry \<Rightarrow> registry_call list" where
  "dispose r = map Disposable_dispose (disposables r)"

text \<open>The object after it was built and \<^verbatim>\<open>register()\<close> was called \<open>n\<close> times.\<close>

fun registeredTimes :: "nat \<Rightarrow> commandListener list option \<Rightarrow> registry" where
  "registeredTimes 0 listeners = constructor listeners"
| "registeredTimes (Suc n) listeners = register (registeredTimes n listeners)"

text \<open>The registrations among the calls of the object.\<close>

fun registrations :: "registry_call list \<Rightarrow> (command \<times> handler_name) list" where
  "registrations [] = []"
| "registrations (CommandManager_registerCommand c h # cs) = (c, h) # registrations cs"
| "registrations (_ # cs) = registrations cs"

subsection \<open>The command surface, as specified\<close>

text \<open>
  The commands the specification lists, in its order, each with the handler method that
  serves it.
\<close>

definition commandSurface :: "(command \<times> handler_name) list" where
  "commandSurface =
     [(RunAllCells, H_runAllCells),
      (RunCell, H_runCell),
      (RunCurrentCell, H_runCurrentCell),
      (RunCurrentCellAdvance, H_runCurrentCellAndAdvance),
      (ExecSelectionInInteractiveWindow, H_runSelectionOrLine),
      (RunAllCellsAbove, H_runAllCellsAbove),
      (RunCellAndAllBelow, H_runCellAndAllBelow),
      (RunAllCellsAbovePalette, H_runAllCellsAboveFromCursor),
      (RunCellAndAllBelowPalette, H_runCellAndAllBelowFromCursor),
      (RunToLine, H_runToLine),
      (RunFromLine, H_runFromLine),
      (RunFileInInteractiveWindows, H_runFileInteractive),
      (DebugFileInInteractiveWindows, H_debugFileInteractive),
      (AddCellBelow, H_addCellBelow),
      (RunCurrentCellAndAddBelow, H_runCurrentCellAndAddBelow),
      (DebugCell, H_debugCell),
      (DebugStepOver, H_debugStepOver),
      (DebugContinue, H_debugContinue),
      (DebugStop, H_debugStop),
      (DebugCurrentCellPalette, H_debugCurrentCellFromCursor),
      (CreateNewNotebook, H_createNewNotebook),
      (ViewJupyterOutput, H_viewJupyterOutput),
      (ExportAsPythonScript, H_exportAsPythonScript),
      (ExportToHTML, H_exportToHTML),
      (ExportToPDF, H_exportToPDF),
      (Export, H_export),
      (GatherQuality, H_reportGatherQuality),
      (EnableLoadingWidgetsFrom3rdPartySource, H_enableLoadingWidgetScriptsFromThirdParty),
      (OpenStartPage, H_openStartPage)]"

subsection \<open>A sample environment\<close>

text \<open>
  Four open documents, two of them with the same file name; the active editor shows
  \<^verbatim>\<open>z.py\<close>; the documents \<^verbatim>\<open>a.py\<close> and \<^verbatim>\<open>z.py\<close> have code watchers 1 and 2.
\<close>

definition sampleDocuments :: "textDocument list" where
  "sampleDocuments =
     [\<lparr>fileName = ''a.py'', doc_uri = ''file:///a.py''\<rparr>,
      \<lparr>fileName = ''b.py'', doc_uri = ''file:///b.py''\<rparr>,
      \<lparr>fileName = ''b.py'', doc_uri = ''git:/b.py''\<rparr>,
      \<lparr>fileName = ''z.py'', doc_uri = ''file:///z.py''\<rparr>]"

definition sampleEnv :: env where
  "sampleEnv =
     \<lparr>textDocuments = sampleDocuments,
      activeTextEditor =
        Some \<lparr>document = Some \<lparr>fileName = ''z.py'', doc_uri = ''file:///z.py''\<rparr>,
              selection = Some \<lparr>anchor = \<lparr>line = 3, character = 0\<rparr>,
                                sel_start = \<lparr>line = 3, character = 0\<rparr>\<rparr>\<rparr>,
      lensGetCodeWatcher =
        (\<lambda>d. if doc_uri d = ''file:///a.py'' then Some 1
             else if doc_uri d = ''file:///z.py'' then Some 2
             else None),
      getCodeLenses = (\<lambda>w. []),
      activeDebugSession = Some 0,
      widgetScriptSources = [],
      updateSettingResolves = True,
      notebookActiveEditor = None,
      quickPickAnswer = Some \<lparr>label = ''HTML'', picked = False\<rparr>,
      informationMessageAnswer = None,
      saveDialogAnswer = Some (Uri_parse ''file:///out.ipynb'')\<rparr>"

subsection \<open>Kinds of calls\<close>

fun isTelemetry :: "call \<Rightarrow> bool" where
  "isTelemetry (SendTelemetryEvent t ps) = True"
| "isTelemetry _ = False"

subsection \<open>The collaborator a call goes to\<close>



subsection \<open>Counting calls\<close>



subsection \<open>The disposables the object holds\<close>

text \<open>
  The array of disposables holds the two commands of the constructor and then, in order,
  every disposable the command manager has returned to the object.
\<close>

definition disposablesCollected :: "registry \<Rightarrow> bool" where
  "disposablesCollected r =
     (disposables r =
        [ServerSelectedCommand, KernelSwitcherCommand] @
        map CommandDisposable [0..<length (registered r)])"

section \<open>Properties\<close>

subsection \<open>Document lookup by file name\<close>

text \<open>
  C3. For every file name, \<open>getCodeWatcher\<close> returns the code watcher that the code lens
  provider has for the open document of that name when exactly one open document has the
  name (that document is then the only one of the name), returns \<^verbatim>\<open>undefined\<close> when no
  open document has the name, and throws the document mismatch error when more than one
  has it.
\<close>

theorem getCodeWatcher_by_fileName:
  "(length (filter (\<lambda>d. fileName d = f) (textDocuments e)) = 1 \<longrightarrow>
      (\<exists>d \<in> set (textDocuments e).
         fileName d = f \<and>
         (\<forall>d' \<in> set (textDocuments e). fileName d' = f \<longrightarrow> d' = d) \<and>
         getCodeWatcher e f = Inr (lensGetCodeWatcher e d))) \<and>
   ((\<forall>d \<in> set (textDocuments e). fileName d \<noteq> f) \<longrightarrow> getCodeWatcher e f = Inr None) \<and>
   (length (filter (\<lambda>d. fileName d = f) (textDocuments e)) > 1 \<longrightarrow>
      getCodeWatcher e f = Inl (DocumentMismatch f))"
proof (intro conjI impI)
  assume one: "length (filter (\<lambda>d. fileName d = f) (textDocuments e)) = 1"
  then obtain d where d: "filter (\<lambda>d. fileName d = f) (textDocuments e) = [d]"
    by (cases "filter (\<lambda>d. fileName d = f) (textDocuments e)") auto
  have "d \<in> set (filter (\<lambda>d. fileName d = f) (textDocuments e))"
    by (simp add: d)
  then have mem: "d \<in> set (textDocuments e)" and name: "fileName d = f"
    by auto
  have only: "d' = d" if "d' \<in> set (textDocuments e)" "fileName d' = f" for d'
  proof -
    from that have "d' \<in> set (filter (\<lambda>d. fileName d = f) (textDocuments e))"
      by simp
    then show ?thesis by (simp add: d)
  qed
  have "getCodeWatcher e f = Inr (lensGetCodeWatcher e d)"
    by (simp add: getCodeWatcher_def d)
  with mem name only
  show "\<exists>d \<in> set (textDocuments e).
          fileName d = f \<and>
          (\<forall>d' \<in> set (textDocuments e). fileName d' = f \<longrightarrow> d' = d) \<and>
          getCodeWatcher e f = Inr (lensGetCodeWatcher e d)"
    by blast
next
  assume "\<forall>d \<in> set (textDocuments e). fileName d \<noteq> f"
  then have "filter (\<lambda>d. fileName d = f) (textDocuments e) = []"
    by (simp add: filter_empty_conv)
  then show "getCodeWatcher e f = Inr None"
    by (simp add: getCodeWatcher_def)
next
  assume "length (filter (\<lambda>d. fileName d = f) (textDocuments e)) > 1"
  then show "getCodeWatcher e f = Inl (DocumentMismatch f)"
    by (simp add: getCodeWatcher_def Let_def)
qed

theorem getCodeWatcher_by_fileName_witness:
  "getCodeWatcher sampleEnv ''a.py'' = Inr (Some 1) \<and>
   getCodeWatcher sampleEnv ''c.py'' = Inr None \<and>
   getCodeWatcher sampleEnv ''b.py'' = Inl (DocumentMismatch ''b.py'')"
  using getCodeWatcher_by_fileName [of "''a.py''" sampleEnv]
        getCodeWatcher_by_fileName [of "''c.py''" sampleEnv]
        getCodeWatcher_by_fileName [of "''b.py''" sampleEnv]
  by (simp add: sampleEnv_def sampleDocuments_def)

subsection \<open>Handlers that take a file name and fall back to the active editor\<close>

lemma getCodeWatcher_Inl_iff:
  "(getCodeWatcher e f = Inl err) =
   (length (filter (\<lambda>d. fileName d = f) (textDocuments e)) > 1 \<and> err = DocumentMismatch f)"
  by (auto simp: getCodeWatcher_def Let_def split: list.splits)

text \<open>
  C4, as stated, fails: with two open documents named \<^verbatim>\<open>b.py\<close> the lookup by file
  name throws, so each of the three handlers rejects with the document mismatch error. It
  neither falls back to the code watcher of the active editor's document (code watcher 2
  here) nor resolves without a call.
\<close>

theorem file_handlers_counterexample:
  "length (filter (\<lambda>d. fileName d = ''b.py'') (textDocuments sampleEnv)) = 2 \<and>
   getCurrentCodeWatcher sampleEnv = Some 2 \<and>
   runAllCells sampleEnv ''b.py'' = Inl (DocumentMismatch ''b.py'') \<and>
   runFileInteractive sampleEnv ''b.py'' = Inl (DocumentMismatch ''b.py'') \<and>
   debugFileInteractive sampleEnv ''b.py'' = Inl (DocumentMismatch ''b.py'') \<and>
   runAllCells sampleEnv ''b.py'' \<noteq> Inr [CodeWatcherCall 2 CW_runAllCells] \<and>
   runAllCells sampleEnv ''b.py'' \<noteq> Inr []"
  by (simp add: runAllCells_def runFileInteractive_def debugFileInteractive_def
      getCodeWatcher_def getCurrentCodeWatcher_def sampleEnv_def sampleDocuments_def)

text \<open>
  C4, amended. For every file name of which at most one document is open, the lookup by
  file name does not throw, and each of \<open>runAllCells\<close>, \<open>runFileInteractive\<close> and
  \<open>debugFileInteractive\<close> makes exactly one call, the code watcher method of its own name
  without arguments, on the code watcher the lookup found; when the lookup found none, on
  the code watcher of the active editor's document; and when there is none either, it
  resolves without any call. When more than one document of that name is open, each
  handler rejects with the document mismatch error, without any call.
\<close>

theorem file_handlers_delegate:
  "(getCodeWatcher e f = Inr (Some w) \<longrightarrow>
      runAllCells e f = Inr [CodeWatcherCall w CW_runAllCells] \<and>
      runFileInteractive e f = Inr [CodeWatcherCall w CW_runFileInteractive] \<and>
      debugFileInteractive e f = Inr [CodeWatcherCall w CW_debugFileInteractive]) \<and>
   (getCodeWatcher e f = Inr None \<and> getCurrentCodeWatcher e = Some w \<longrightarrow>
      runAllCells e f = Inr [CodeWatcherCall w CW_runAllCells] \<and>
      runFileInteractive e f = Inr [CodeWatcherCall w CW_runFileInteractive] \<and>
      debugFileInteractive e f = Inr [CodeWatcherCall w CW_debugFileInteractive]) \<and>
   (getCodeWatcher e f = Inr None \<and> getCurrentCodeWatcher e = None \<longrightarrow>
      runAllCells e f = Inr [] \<and> runFileInteractive e f = Inr [] \<and>
      debugFileInteractive e f = Inr []) \<and>
   (length (filter (\<lambda>d. fileName d = f) (textDocuments e)) \<le> 1 \<longrightarrow>
      (\<exists>found. getCodeWatcher e f = Inr found)) \<and>
   (length (filter (\<lambda>d. fileName d = f) (textDocuments e)) > 1 \<longrightarrow>
      runAllCells e f = Inl (DocumentMismatch f) \<and>
      runFileInteractive e f = Inl (DocumentMismatch f) \<and>
      debugFileInteractive e f = Inl (DocumentMismatch f))"
proof (intro conjI impI)
  assume "length (filter (\<lambda>d. fileName d = f) (textDocuments e)) \<le> 1"
  then show "\<exists>found. getCodeWatcher e f = Inr found"
    by (cases "getCodeWatcher e f") (auto simp: getCodeWatcher_Inl_iff)
qed (auto simp: runAllCells_def runFileInteractive_def debugFileInteractive_def
       getCodeWatcher_Inl_iff [THEN iffD2])

theorem file_handlers_delegate_witness:
  "runAllCells sampleEnv ''a.py'' = Inr [CodeWatcherCall 1 CW_runAllCells] \<and>
   runFileInteractive sampleEnv ''c.py'' = Inr [CodeWatcherCall 2 CW_runFileInteractive] \<and>
   debugFileInteractive (sampleEnv\<lparr>activeTextEditor := None\<rparr>) ''c.py'' = Inr [] \<and>
   (\<exists>found. getCodeWatcher sampleEnv ''z.py'' = Inr found) \<and>
   debugFileInteractive sampleEnv ''b.py'' = Inl (DocumentMismatch ''b.py'')"
  using file_handlers_delegate [of sampleEnv "''a.py''" 1]
        file_handlers_delegate [of sampleEnv "''c.py''" 2]
        file_handlers_delegate [of "sampleEnv\<lparr>activeTextEditor := None\<rparr>" "''c.py''"]
        file_handlers_delegate [of sampleEnv "''z.py''"]
        file_handlers_delegate [of sampleEnv "''b.py''"]
  by (simp add: sampleEnv_def sampleDocuments_def getCodeWatcher_def getCurrentCodeWatcher_def)

subsection \<open>Debugger handlers\<close>

text \<open>
  C5. Each of \<open>debugStepOver\<close>, \<open>debugStop\<close> and \<open>debugContinue\<close> executes its
  workbench debug command if and only if there is an active debug session; without one it
  returns without executing any command.
\<close>

theorem debug_handlers_need_session:
  "(activeDebugSession e \<noteq> None \<longrightarrow>
      debugStepOver e = Inr [ExecuteCommand ''workbench.action.debug.stepOver''] \<and>
      debugStop e = Inr [ExecuteCommand ''workbench.action.debug.stop''] \<and>
      debugContinue e = Inr [ExecuteCommand ''workbench.action.debug.continue'']) \<and>
   (activeDebugSession e = None \<longrightarrow>
      debugStepOver e = Inr [] \<and> debugStop e = Inr [] \<and> debugContinue e = Inr []) \<and>
   ((debugStepOver e = Inr [ExecuteCommand ''workbench.action.debug.stepOver'']) =
      (activeDebugSession e \<noteq> None)) \<and>
   ((debugStop e = Inr [ExecuteCommand ''workbench.action.debug.stop'']) =
      (activeDebugSession e \<noteq> None)) \<and>
   ((debugContinue e = Inr [ExecuteCommand ''workbench.action.debug.continue'']) =
      (activeDebugSession e \<noteq> None))"
  by (simp add: debugStepOver_def debugStop_def debugContinue_def)

theorem debug_handlers_need_session_witness:
  "debugStepOver sampleEnv = Inr [ExecuteCommand ''workbench.action.debug.stepOver''] \<and>
   debugStop sampleEnv = Inr [ExecuteCommand ''workbench.action.debug.stop''] \<and>
   debugContinue sampleEnv = Inr [ExecuteCommand ''workbench.action.debug.continue''] \<and>
   debugStepOver (sampleEnv\<lparr>activeDebugSession := None\<rparr>) = Inr [] \<and>
   debugStop (sampleEnv\<lparr>activeDebugSession := None\<rparr>) = Inr [] \<and>
   debugContinue (sampleEnv\<lparr>activeDebugSession := None\<rparr>) = Inr []"
  using debug_handlers_need_session [of sampleEnv]
        debug_handlers_need_session [of "sampleEnv\<lparr>activeDebugSession := None\<rparr>"]
  by (simp add: sampleEnv_def)

subsection \<open>The gather survey\<close>

text \<open>
  C6. For every string \<open>val\<close>, \<open>reportGatherQuality\<close> sends exactly one telemetry event,
  \<^verbatim>\<open>GatherQualityReport\<close>, whose \<^verbatim>\<open>result\<close> is \<^verbatim>\<open>no\<close> when \<open>val\<close> is \<^verbatim>\<open>no\<close> and
  \<^verbatim>\<open>yes\<close> for every other \<open>val\<close>, and then opens the external address
  \<^verbatim>\<open>https://aka.ms/gathersurvey?succeed=\<close> followed by \<open>val\<close>.
\<close>

theorem reportGatherQuality_calls:
  "\<exists>answer. reportGatherQuality e val =
       [SendTelemetryEvent Telemetry_GatherQualityReport [(''result'', answer)],
        OpenExternal (Uri_parse (''https://aka.ms/gathersurvey?succeed='' @ val))] \<and>
     (val = ''no'' \<longrightarrow> answer = ''no'') \<and>
     (val \<noteq> ''no'' \<longrightarrow> answer = ''yes'') \<and>
     length (filter isTelemetry (reportGatherQuality e val)) = 1"
  by (simp add: reportGatherQuality_def)

theorem reportGatherQuality_calls_witness:
  "reportGatherQuality sampleEnv ''no'' =
     [SendTelemetryEvent Telemetry_GatherQualityReport [(''result'', ''no'')],
      OpenExternal (Uri_parse ''https://aka.ms/gathersurvey?succeed=no'')] \<and>
   reportGatherQuality sampleEnv ''maybe'' =
     [SendTelemetryEvent Telemetry_GatherQualityReport [(''result'', ''yes'')],
      OpenExternal (Uri_parse ''https://aka.ms/gathersurvey?succeed=maybe'')]"
  using reportGatherQuality_calls [of sampleEnv "''no''"]
        reportGatherQuality_calls [of sampleEnv "''maybe''"]
  by auto

subsection \<open>Export\<close>

text \<open>
  C8. \<open>getFileSaveLocation\<close> returns \<^verbatim>\<open>undefined\<close> in every environment, whatever uri
  the user chooses in the save dialog; the dialog itself is shown, with the active
  notebook's file as its default.
\<close>

theorem getFileSaveLocation_undefined:
  "fst (getFileSaveLocation e) = None \<and>
   fst (getFileSaveLocation (e\<lparr>saveDialogAnswer := Some u\<rparr>)) = None \<and>
   snd (getFileSaveLocation e) =
     [ShowSaveDialog \<lparr>defaultUri = map_option nb_file (notebookActiveEditor e), saveLabel = [],
                      filters = [(''Juypter Notebooks'', [''ipynb''])]\<rparr>]"
  by (simp add: getFileSaveLocation_def)

text \<open>
  C9. The handlers \<open>exportAsPythonScript\<close>, \<open>exportToHTML\<close> and \<open>exportToPDF\<close> make no
  call, so their three commands complete with nothing done; the handler of each of the
  three items of the export quick pick is one of them and makes no call either, so
  \<open>export\<close> makes only the calls of the quick pick and of \<open>verifySaved\<close>, whatever the user
  picks.
\<close>

theorem export_handlers_empty:
  "exportAsPythonScript e = [] \<and> exportToHTML e = [] \<and> exportToPDF e = [] \<and>
   invoke e H_exportAsPythonScript NoArguments = Some (Inr []) \<and>
   invoke e H_exportToHTML NoArguments = Some (Inr []) \<and>
   invoke e H_exportToPDF NoArguments = Some (Inr []) \<and>
   map label getExportQuickPickItems = [''Python Script'', ''HTML'', ''PDF''] \<and>
   map (\<lambda>item. handler item e) getExportQuickPickItems = [[], [], []] \<and>
   export e = fst (showExportQuickPick e) @ fst (verifySaved e) @ snd (verifySaved e)"
  by (simp add: exportAsPythonScript_def exportToHTML_def exportToPDF_def invoke_def
      getExportQuickPickItems_def export_def showExportQuickPick_def Let_def
      split: prod.splits option.splits)

subsection \<open>Widget script sources\<close>

text \<open>
  C7. When the configured list of widget script sources is not empty,
  \<open>enableLoadingWidgetScriptsFromThirdParty\<close> makes no call: no setting is updated and no
  message is shown. Only when the list is empty does it update a setting, and then the
  single setting \<^verbatim>\<open>dataScience.widgetScriptSources\<close>, to \<^verbatim>\<open>jsdelivr.com\<close> and
  \<^verbatim>\<open>unpkg.com\<close>, at the global target, once; the information message is shown after
  that update, once it has resolved. The configuration changes by that one update and in
  no other way, so every other setting of a store keeps its value.
\<close>

theorem enableLoadingWidgetScripts_effect:
  "(widgetScriptSources e \<noteq> [] \<longrightarrow>
      enableLoadingWidgetScriptsFromThirdParty e = [] \<and>
      settingsAfter upd e st (enableLoadingWidgetScriptsFromThirdParty e) = st) \<and>
   (widgetScriptSources e = [] \<longrightarrow>
      (\<exists>rest. enableLoadingWidgetScriptsFromThirdParty e =
         UpdateSetting ''dataScience.widgetScriptSources'' [''jsdelivr.com'', ''unpkg.com''] Global
           # rest \<and>
         (updateSettingResolves e \<longrightarrow>
            rest = [ShowInformationMessage loadThirdPartyWidgetScriptsPostEnabled []]) \<and>
         (\<not> updateSettingResolves e \<longrightarrow> rest = []))) \<and>
   (UpdateSetting name v target \<in> set (enableLoadingWidgetScriptsFromThirdParty e) \<longrightarrow>
      widgetScriptSources e = [] \<and> name = ''dataScience.widgetScriptSources'' \<and>
      v = [''jsdelivr.com'', ''unpkg.com''] \<and> target = Global) \<and>
   (ShowInformationMessage m options \<in> set (enableLoadingWidgetScriptsFromThirdParty e) \<longrightarrow>
      widgetScriptSources e = [] \<and> updateSettingResolves e) \<and>
   settingsAfter upd e st (enableLoadingWidgetScriptsFromThirdParty e) =
     (if widgetScriptSources e = [] \<and> updateSettingResolves e
      then upd ''dataScience.widgetScriptSources'' [''jsdelivr.com'', ''unpkg.com''] Global st
      else st) \<and>
   (k \<noteq> (Global, ''dataScience.widgetScriptSources'') \<longrightarrow>
      settingsAfter storeSetting e store (enableLoadingWidgetScriptsFromThirdParty e) k = store k)"
  by (auto simp: enableLoadingWidgetScriptsFromThirdParty_def settingsAfter_def storeSetting_def)

theorem enableLoadingWidgetScripts_effect_witness:
  "enableLoadingWidgetScriptsFromThirdParty (sampleEnv\<lparr>widgetScriptSources := [''unpkg.com'']\<rparr>) = [] \<and>
   enableLoadingWidgetScriptsFromThirdParty sampleEnv =
     [UpdateSetting ''dataScience.widgetScriptSources'' [''jsdelivr.com'', ''unpkg.com''] Global,
      ShowInformationMessage loadThirdPartyWidgetScriptsPostEnabled []] \<and>
   enableLoadingWidgetScriptsFromThirdParty (sampleEnv\<lparr>updateSettingResolves := False\<rparr>) =
     [UpdateSetting ''dataScience.widgetScriptSources'' [''jsdelivr.com'', ''unpkg.com''] Global] \<and>
   settingsAfter storeSetting sampleEnv Map.empty (enableLoadingWidgetScriptsFromThirdParty sampleEnv)
     (Workspace, ''dataScience.widgetScriptSources'') = None \<and>
   widgetScriptSources sampleEnv = [] \<and> updateSettingResolves sampleEnv"
proof -
  note effect =
    enableLoadingWidgetScripts_effect
      [where upd = storeSetting and st = Map.empty and store = Map.empty
         and k = "(Workspace, ''dataScience.widgetScriptSources'')"
         and name = "''dataScience.widgetScriptSources''"
         and v = "[''jsdelivr.com'', ''unpkg.com'']" and target = Global
         and m = loadThirdPartyWidgetScriptsPostEnabled and options = "[]"]
  have frame:
    "settingsAfter storeSetting sampleEnv Map.empty (enableLoadingWidgetScriptsFromThirdParty sampleEnv)
       (Workspace, ''dataScience.widgetScriptSources'') =
     Map.empty (Workspace, ''dataScience.widgetScriptSources'')"
    by (rule effect [where e = sampleEnv, THEN conjunct2, THEN conjunct2, THEN conjunct2,
          THEN conjunct2, THEN conjunct2, THEN mp]) simp
  have calls:
    "enableLoadingWidgetScriptsFromThirdParty (sampleEnv\<lparr>widgetScriptSources := [''unpkg.com'']\<rparr>) = [] \<and>
     enableLoadingWidgetScriptsFromThirdParty sampleEnv =
       [UpdateSetting ''dataScience.widgetScriptSources'' [''jsdelivr.com'', ''unpkg.com''] Global,
        ShowInformationMessage loadThirdPartyWidgetScriptsPostEnabled []] \<and>
     enableLoadingWidgetScriptsFromThirdParty (sampleEnv\<lparr>updateSettingResolves := False\<rparr>) =
       [UpdateSetting ''dataScience.widgetScriptSources'' [''jsdelivr.com'', ''unpkg.com''] Global] \<and>
     widgetScriptSources sampleEnv = [] \<and> updateSettingResolves sampleEnv"
    using effect [where e = "sampleEnv\<lparr>widgetScriptSources := [''unpkg.com'']\<rparr>"]
          effect [where e = sampleEnv]
          effect [where e = "sampleEnv\<lparr>updateSettingResolves := False\<rparr>"]
    by (simp add: sampleEnv_def)
  from calls frame show ?thesis by simp
qed

subsection \<open>Registration\<close>

lemma registrations_append:
  "registrations (xs @ ys) = registrations xs @ registrations ys"
  by (induction xs rule: registrations.induct) simp_all

lemma perform_fields:
  "made (perform c r) = made r @ [c]"
  "registered (perform c r) = registered r"
  "disposables (perform c r) = disposables r"
  "commandListeners (perform c r) = commandListeners r"
  by (simp_all add: perform_def)

lemma registerCommand_fields:
  "made (registerCommand c h r) = made r @ [CommandManager_registerCommand c h]"
  "registered (registerCommand c h r) = registered r @ [(c, h)]"
  "disposables (registerCommand c h r) = disposables r @ [CommandDisposable (length (registered r))]"
  "commandListeners (registerCommand c h r) = commandListeners r"
  by (simp_all add: registerCommand_def Let_def)

lemma listeners_fields:
  "made (foldl (\<lambda>r listener. perform (Listener_register listener) r) r ls) =
     made r @ map Listener_register ls"
  "registered (foldl (\<lambda>r listener. perform (Listener_register listener) r) r ls) = registered r"
  "disposables (foldl (\<lambda>r listener. perform (Listener_register listener) r) r ls) = disposables r"
  "commandListeners (foldl (\<lambda>r listener. perform (Listener_register listener) r) r ls) =
     commandListeners r"
  by (induction ls arbitrary: r) (simp_all add: perform_fields)

lemma registrations_listeners: "registrations (map Listener_register ls) = []"
  by (induction ls) simp_all


lemma register_registered: "registered (register r) = registered r @ commandSurface"
  by (simp add: register_def Let_def registerCommand_fields perform_fields listeners_fields
      commandSurface_def split: option.splits)

lemma register_commandListeners: "commandListeners (register r) = commandListeners r"
  by (simp add: register_def Let_def registerCommand_fields perform_fields listeners_fields
      split: option.splits)

lemma register_made:
  "made (register r) =
     made r @
     [CommandLineCommand_register, ServerSelectedCommand_register, KernelSwitcherCommand_register] @
     map (\<lambda>(c, h). CommandManager_registerCommand c h) commandSurface @
     (case commandListeners r of Some ls \<Rightarrow> map Listener_register ls | None \<Rightarrow> [])"
  by (simp add: register_def Let_def registerCommand_fields perform_fields listeners_fields
      commandSurface_def split: option.splits)


text \<open>
  C1. \<open>register\<close> registers with the command manager, through \<open>registerCommand\<close>, exactly
  the commands of the command surface, each once and each bound to its handler method, in
  that order, and no other command: the registrations among its own calls, and the
  object's record of them, grow by the command surface, whatever command listeners it was
  given. On a new object they are the command surface, of 29 different commands and
  handlers.
\<close>

theorem register_command_surface:
  "registrations (made (register r)) = registrations (made r) @ commandSurface \<and>
   registered (register r) = registered r @ commandSurface \<and>
   registrations (made (register (constructor listeners))) = commandSurface \<and>
   registered (register (constructor listeners)) = commandSurface \<and>
   distinct (map fst commandSurface) \<and> distinct (map snd commandSurface) \<and>
   length commandSurface = 29"
proof -
  have surface: "registrations (map (\<lambda>(c, h). CommandManager_registerCommand c h) commandSurface) =
      commandSurface"
    by (simp add: commandSurface_def)
  have others: "registrations (case commandListeners r of
      Some ls \<Rightarrow> map Listener_register ls | None \<Rightarrow> []) = []" for r :: registry
    by (simp add: registrations_listeners split: option.splits)
  have made: "registrations (made (register r)) = registrations (made r) @ commandSurface"
    for r :: registry
    by (simp only: register_made registrations_append surface others) simp
  have fresh: "made (constructor listeners) = []" "registered (constructor listeners) = []"
    by (simp_all add: constructor_def)
  have d: "distinct (map fst commandSurface)" "distinct (map snd commandSurface)"
    "length commandSurface = 29"
    by (simp_all add: commandSurface_def)
  show ?thesis
    using made [of r] made [of "constructor listeners"] d
    by (simp add: register_registered fresh)
qed

subsection \<open>Disposal\<close>

lemma collected_perform: "disposablesCollected (perform c r) = disposablesCollected r"
  by (simp add: disposablesCollected_def perform_fields)

lemma collected_registerCommand:
  "disposablesCollected (registerCommand c h r) = disposablesCollected r"
  by (auto simp: disposablesCollected_def registerCommand_fields)

lemma collected_listeners:
  "disposablesCollected (foldl (\<lambda>r listener. perform (Listener_register listener) r) r ls) =
   disposablesCollected r"
  by (simp add: disposablesCollected_def listeners_fields)

lemma collected_register: "disposablesCollected (register r) = disposablesCollected r"
  by (simp add: register_def Let_def collected_perform collected_registerCommand
      collected_listeners split: option.splits)

lemma collected_registeredTimes: "disposablesCollected (registeredTimes n ls)"
  by (induction n) (simp_all add: collected_register, simp add: disposablesCollected_def constructor_def)

lemma registered_registeredTimes: "length (registered (registeredTimes n ls)) = 29 * n"
  by (induction n) (simp_all add: register_registered constructor_def commandSurface_def)

lemma made_registeredTimes:
  "registrations (made (registeredTimes n ls)) = registered (registeredTimes n ls)"
proof (induction n)
  case 0
  show ?case by (simp add: constructor_def)
next
  case (Suc n)
  have "registrations (made (register r)) = registrations (made r) @ commandSurface"
    for r :: registry
    by (simp add: register_made registrations_append registrations_listeners commandSurface_def
        split: option.splits)
  with Suc show ?case by (simp add: register_registered)
qed

lemma count_dispose: "count_list (map Disposable_dispose ds) (Disposable_dispose d) = count_list ds d"
  by (induction ds) simp_all

lemma count_distinct: "distinct xs \<Longrightarrow> count_list xs x = (if x \<in> set xs then 1 else 0)"
  by (induction xs) auto

lemma collected_distinct: "disposablesCollected r \<Longrightarrow> distinct (disposables r)"
  by (auto simp: disposablesCollected_def distinct_map inj_on_def)

text \<open>
  C10. At every moment of the object's life (built, then \<open>register\<close> called any number
  of times) the array of disposables is the two commands the constructor pushed followed
  by one disposable for each \<open>registerCommand\<close> call made so far, so every disposable the
  command manager returned is in the array; and \<open>dispose\<close> calls \<^verbatim>\<open>dispose\<close> exactly once
  on each element of the array and on nothing else.
\<close>

theorem disposables_collected_and_disposed:
  "disposables (registeredTimes n ls) =
     [ServerSelectedCommand, KernelSwitcherCommand] @
     map CommandDisposable [0..<length (registered (registeredTimes n ls))] \<and>
   registrations (made (registeredTimes n ls)) = registered (registeredTimes n ls) \<and>
   length (registered (registeredTimes n ls)) = 29 * n \<and>
   (i < length (registered (registeredTimes n ls)) \<longrightarrow>
      CommandDisposable i \<in> set (disposables (registeredTimes n ls))) \<and>
   length (dispose (registeredTimes n ls)) = length (disposables (registeredTimes n ls)) \<and>
   count_list (dispose (registeredTimes n ls)) (Disposable_dispose d) =
     (if d \<in> set (disposables (registeredTimes n ls)) then 1 else 0)"
proof -
  let ?r = "registeredTimes n ls"
  have c: "disposablesCollected ?r" by (rule collected_registeredTimes)
  then have shape: "disposables ?r =
     [ServerSelectedCommand, KernelSwitcherCommand] @
     map CommandDisposable [0..<length (registered ?r)]"
    by (simp add: disposablesCollected_def)
  have kept: "CommandDisposable i \<in> set (disposables ?r)" if "i < length (registered ?r)"
    using that by (subst shape) simp
  have once: "count_list (dispose ?r) (Disposable_dispose d) =
     (if d \<in> set (disposables ?r) then 1 else 0)"
    unfolding dispose_def count_dispose
    by (rule count_distinct) (rule collected_distinct [OF c])
  have len: "length (dispose ?r) = length (disposables ?r)"
    by (simp add: dispose_def)
  from shape kept once len show ?thesis
    by (simp only: made_registeredTimes registered_registeredTimes) simp
qed

theorem disposables_collected_and_disposed_witness:
  "length (registered (registeredTimes 1 None)) = 29 \<and>
   CommandDisposable 28 \<in> set (disposables (registeredTimes 1 None)) \<and>
   count_list (dispose (registeredTimes 1 None)) (Disposable_dispose (CommandDisposable 28)) = 1"
  using disposables_collected_and_disposed [of 1 None 28 "CommandDisposable 28"]
  by simp

subsection \<open>How many calls a handler makes\<close>










end
